theory Spec2Isabelle
  imports Complex_Main "HOL-Library.Sublist" "HOL-Library.Word"
begin

section \<open>Python values used by \<open>src/server/main.py\<close>\<close>

text \<open>
  A Python \<open>str\<close> is a sequence of Unicode code points, so it is modelled as a list of
  code points (\<open>len\<close>, slicing and \<open>strip\<close> count code points, not bytes). \<open>ustr\<close> embeds
  an ASCII literal; code points beyond ASCII are written as numbers. \<open>bytes\<close> is a list
  of octets.
\<close>

type_synonym pystr = "nat list"

type_synonym pybytes = "8 word list"

definition ustr :: "string \<Rightarrow> pystr" where
  "ustr cs = map of_char cs"

text \<open>
  \<open>str.isspace\<close> on one code point, as CPython decides it: the whitespace code points
  of the Unicode character database (9-13, 28-32, 0x85, 0xA0, 0x1680, 0x2000-0x200A,
  0x2028, 0x2029, 0x202F, 0x205F, 0x3000).
\<close>

definition isspace :: "nat \<Rightarrow> bool" where
  "isspace c \<longleftrightarrow>
     (9 \<le> c \<and> c \<le> 13) \<or> (28 \<le> c \<and> c \<le> 32) \<or> c = 133 \<or> c = 160 \<or> c = 5760 \<or>
     (8192 \<le> c \<and> c \<le> 8202) \<or> c = 8232 \<or> c = 8233 \<or> c = 8239 \<or> c = 8287 \<or> c = 12288"

text \<open>\<open>s.strip()\<close>: whitespace removed at both ends, the middle untouched.\<close>

definition strip :: "pystr \<Rightarrow> pystr" where
  "strip s = rev (dropWhile isspace (rev (dropWhile isspace s)))"

text \<open>An optional string inside an f-string: \<open>None\<close> prints as the word None.\<close>

definition format_opt :: "pystr option \<Rightarrow> pystr" where
  "format_opt x = (case x of None \<Rightarrow> ustr ''None'' | Some s \<Rightarrow> s)"

text \<open>
  The exceptions the two handlers of \<open>process_audio\<close> tell apart: \<open>OpenAIError\<close> (the
  provider's error class) and every other subclass of \<open>Exception\<close>. Each carries what
  \<open>str(e)\<close> gives, which is what the f-strings of the handlers interpolate.
\<close>

datatype exception = OpenAIError pystr | Exception pystr

fun str_of :: "exception \<Rightarrow> pystr" where
  "str_of (OpenAIError m) = m"
| "str_of (Exception m) = m"

section \<open>The request, the OpenAI client and the effects\<close>

text \<open>
  \<open>UploadFile\<close>: the optional filename, the optional declared content type, and what
  \<open>await audio_file.read()\<close> does (it raises, or it returns the bytes).
\<close>

record upload_file =
  filename :: "pystr option"
  content_type :: "pystr option"
  read :: "exception + pybytes"

text \<open>The arguments of \<open>client.audio.transcriptions.create\<close> and its response.\<close>

record transcription_request =
  whisper_model :: pystr
  file_tuple :: "pystr \<times> pybytes \<times> pystr option"

datatype transcription = Transcription (response_text: pystr)

text \<open>The arguments of \<open>client.chat.completions.create\<close> and its response.\<close>

record chat_message_param =
  role :: pystr
  content :: pystr

record completion_request =
  chat_model :: pystr
  messages :: "chat_message_param list"
  temperature :: rat
  max_tokens :: int

datatype chat_completion_message = ChatCompletionMessage (message_content: "pystr option")

datatype choice = Choice (choice_message: chat_completion_message)

datatype chat_completion = ChatCompletion (choices: "choice list")

text \<open>
  The module-level \<open>client\<close>: each remote call either raises or returns. Within one
  request each of the two is called at most once, so a function of the arguments is
  enough.
\<close>

record openai_client =
  transcriptions_create :: "transcription_request \<Rightarrow> exception + transcription"
  completions_create :: "completion_request \<Rightarrow> exception + chat_completion"

text \<open>
  Everything the handlers do besides returning: log lines and the two remote calls, in
  the order they happen. A handler takes the history so far and returns it extended.
\<close>

datatype level = INFO | WARNING | ERROR

datatype event =
    Log level pystr
  | TranscriptionsCreate transcription_request
  | ChatCompletionsCreate completion_request

fun transcription_calls :: "event list \<Rightarrow> transcription_request list" where
  "transcription_calls [] = []"
| "transcription_calls (TranscriptionsCreate r # es) = r # transcription_calls es"
| "transcription_calls (_ # es) = transcription_calls es"

fun advice_calls :: "event list \<Rightarrow> completion_request list" where
  "advice_calls [] = []"
| "advice_calls (ChatCompletionsCreate r # es) = r # advice_calls es"
| "advice_calls (_ # es) = advice_calls es"

text \<open>
  \<open>raise HTTPException(status_code, detail)\<close> is the left summand of a handler's
  result, a normal return the right one. FastAPI answers a normal return of these
  routes with status 200 and an \<open>HTTPException\<close> with its own status code.
\<close>

record http_exception =
  status_code :: nat
  detail :: pystr

definition http_status :: "http_exception + 'a \<Rightarrow> nat" where
  "http_status r = (case r of Inl e \<Rightarrow> status_code e | Inr _ \<Rightarrow> 200)"

record advice_response =
  transcription :: pystr
  advice :: pystr

record root_response =
  message :: pystr

section \<open>\<open>process_audio\<close>\<close>

text \<open>Lines 74-87: the synthetic filename guessed from the declared content type.\<close>

definition guess_filename :: "pystr option \<Rightarrow> pystr" where
  "guess_filename ct =
     (if ct = Some (ustr ''audio/mpeg'') then ustr ''audio.mp3''
      else if ct = Some (ustr ''audio/wav'') then ustr ''audio.wav''
      else if ct = Some (ustr ''audio/ogg'') then ustr ''audio.ogg''
      else if ct = Some (ustr ''audio/mp4'') \<or> ct = Some (ustr ''video/mp4'')
        then ustr ''audio.mp4''
      else if ct = Some (ustr ''audio/m4a'') then ustr ''audio.m4a''
      else ustr ''audio.webm'')"

text \<open>
  Lines 72-89: \<open>if not audio_file.filename: ... else: filename_for_api = audio_file.filename\<close>.
  \<open>not x\<close> holds of \<open>None\<close> and of the empty string.
\<close>

definition filename_for_api :: "upload_file \<Rightarrow> pystr" where
  "filename_for_api audio_file =
     (case filename audio_file of
        None \<Rightarrow> guess_filename (content_type audio_file)
      | Some name \<Rightarrow>
          if name = [] then guess_filename (content_type audio_file) else name)"

text \<open>Lines 92-104: the call \<open>create(model="whisper-1", file=file_tuple)\<close>.\<close>

definition whisper_request :: "upload_file \<Rightarrow> pybytes \<Rightarrow> transcription_request" where
  "whisper_request audio_file audio_data =
     \<lparr>whisper_model = ustr ''whisper-1'',
      file_tuple = (filename_for_api audio_file, audio_data, content_type audio_file)\<rparr>"

text \<open>Lines 57-106: the body of the first \<open>try\<close>; it raises or yields \<open>transcription_text\<close>.\<close>

definition transcribe ::
  "openai_client \<Rightarrow> upload_file \<Rightarrow> event list \<Rightarrow> (exception + pystr) \<times> event list" where
  "transcribe client audio_file w =
     (case read audio_file of
        Inl e \<Rightarrow> (Inl e, w)
      | Inr audio_data \<Rightarrow>
          (let req = whisper_request audio_file audio_data;
               w1 = w @ [Log INFO (ustr ''Sending audio to Whisper API as tuple: Filename='' @ [39]
                           @ filename_for_api audio_file @ [39] @ ustr '', Content-Type='' @ [39]
                           @ format_opt (content_type audio_file) @ [39]),
                         TranscriptionsCreate req]
           in case transcriptions_create client req of
                Inl e \<Rightarrow> (Inl e, w1)
              | Inr transcription_response \<Rightarrow>
                  (let transcription_text = response_text transcription_response
                   in (Inr transcription_text,
                       w1 @ [Log INFO (ustr ''Transcription successful: '' @ [39]
                               @ take 100 transcription_text @ ustr ''...'' @ [39])]))))"

text \<open>Lines 121-132: the prompts and the call \<open>create(model="gpt-4o", ...)\<close>.\<close>

definition system_prompt :: pystr where
  "system_prompt =
     ustr ''Act'' @ [250] @ ustr ''as como un asistente social inteligente. ''
     @ ustr ''Has escuchado la conversaci'' @ [243]
     @ ustr ''n transcrita del usuario en un entorno de trabajo. ''
     @ ustr ''Si detectas una oportunidad para ayudarlo a expresarse mejor, calmar tensiones, ser m''
     @ [225] @ ustr ''s claro o socialmente h'' @ [225] @ ustr ''bil, genera una frase corta y ''
     @ [250] @ ustr ''til. S'' @ [233] @ ustr '' emp'' @ [225] @ ustr ''tico, proactivo y no invasivo.''"

definition user_prefix :: pystr where
  "user_prefix = ustr ''Conversaci'' @ [243] @ ustr ''n transcrita:'' @ [10, 10]"

definition user_suffix :: pystr where
  "user_suffix =
     [10, 10, 191] @ ustr ''Qu'' @ [233] @ ustr '' consejo sutil podr'' @ [237]
     @ ustr ''as ofrecer en este momento?''"

definition user_message :: "pystr \<Rightarrow> pystr" where
  "user_message transcription_text = user_prefix @ transcription_text @ user_suffix"

definition advice_request :: "pystr \<Rightarrow> completion_request" where
  "advice_request transcription_text =
     \<lparr>chat_model = ustr ''gpt-4o'',
      messages = [\<lparr>role = ustr ''system'', content = system_prompt\<rparr>,
                  \<lparr>role = ustr ''user'', content = user_message transcription_text\<rparr>],
      temperature = 7 / 10,
      max_tokens = 100\<rparr>"

text \<open>
  Line 133: \<open>completion_response.choices[0].message.content.strip()\<close>. Indexing an empty
  list raises IndexError and \<open>None.strip()\<close> raises AttributeError, both subclasses of
  \<open>Exception\<close>.
\<close>

definition first_choice_text :: "chat_completion \<Rightarrow> exception + pystr" where
  "first_choice_text completion_response =
     (case choices completion_response of
        [] \<Rightarrow> Inl (Exception (ustr ''list index out of range''))
      | c # _ \<Rightarrow>
          (case message_content (choice_message c) of
             None \<Rightarrow> Inl (Exception ([39] @ ustr ''NoneType'' @ [39]
                            @ ustr '' object has no attribute '' @ [39] @ ustr ''strip'' @ [39]))
           | Some s \<Rightarrow> Inr (strip s)))"

text \<open>Lines 119-134: the body of the second \<open>try\<close>; it raises or yields \<open>advice_text\<close>.\<close>

definition advise ::
  "openai_client \<Rightarrow> pystr \<Rightarrow> event list \<Rightarrow> (exception + pystr) \<times> event list" where
  "advise client transcription_text w =
     (let req = advice_request transcription_text;
          w1 = w @ [Log INFO (ustr ''Sending transcription to GPT model for advice...''),
                    ChatCompletionsCreate req]
      in case completions_create client req of
           Inl e \<Rightarrow> (Inl e, w1)
         | Inr completion_response \<Rightarrow>
             (case first_choice_text completion_response of
                Inl e \<Rightarrow> (Inl e, w1)
              | Inr advice_text \<Rightarrow>
                  (Inr advice_text,
                   w1 @ [Log INFO (ustr ''Advice generated: '' @ [39] @ advice_text @ [39])])))"

text \<open>Lines 116-145: the advice step with its two handlers and the \<open>else\<close> of the \<open>if\<close>.\<close>

definition advice_step ::
  "openai_client \<Rightarrow> pystr \<Rightarrow> event list \<Rightarrow> pystr \<times> event list" where
  "advice_step client transcription_text w =
     (if transcription_text \<noteq> [] then
        (case advise client transcription_text w of
           (Inr advice_text, w1) \<Rightarrow> (advice_text, w1)
         | (Inl (OpenAIError m), w1) \<Rightarrow>
             (ustr ''Error generating advice from LLM.'',
              w1 @ [Log ERROR (ustr ''OpenAI Chat Completions API error: '' @ m)])
         | (Inl (Exception m), w1) \<Rightarrow>
             (ustr ''Error generating advice.'',
              w1 @ [Log ERROR (ustr ''Error during advice generation: '' @ m)]))
      else
        (ustr ''Transcription failed, cannot generate advice.'',
         w @ [Log WARNING (ustr ''Skipping advice generation due to empty transcription.'')]))"

text \<open>Lines 46-149: the handler of \<open>POST /process_audio\<close>.\<close>

definition process_audio ::
  "openai_client \<Rightarrow> upload_file \<Rightarrow> event list \<Rightarrow> (http_exception + advice_response) \<times> event list" where
  "process_audio client audio_file w0 =
     (let w = w0 @ [Log INFO (ustr ''Received audio file: '' @ format_opt (filename audio_file)
                      @ ustr '', Content-Type: '' @ format_opt (content_type audio_file))]
      in case transcribe client audio_file w of
           (Inl (OpenAIError m), w1) \<Rightarrow>
             (Inl \<lparr>status_code = 500, detail = ustr ''Whisper API error: '' @ m\<rparr>,
              w1 @ [Log ERROR (ustr ''OpenAI Whisper API error: '' @ m)])
         | (Inl (Exception m), w1) \<Rightarrow>
             (Inl \<lparr>status_code = 500, detail = ustr ''Failed to transcribe audio: '' @ m\<rparr>,
              w1 @ [Log ERROR (ustr ''Error during transcription: '' @ m)])
         | (Inr transcription_text, w1) \<Rightarrow>
             (case advice_step client transcription_text w1 of
                (advice_text, w2) \<Rightarrow>
                  (Inr \<lparr>transcription = transcription_text, advice = advice_text\<rparr>, w2)))"

text \<open>Lines 152-154: the handler of \<open>GET /\<close>.\<close>

definition root :: "event list \<Rightarrow> (http_exception + root_response) \<times> event list" where
  "root w = (Inr \<lparr>message = ustr ''Wearable AI Backend is running''\<rparr>, w)"

section \<open>The lookup table in the words of the specification\<close>

text \<open>
  The table of the specification's filename resolution, written as a table with a
  default, to be compared with the chain of comparisons of lines 75-87.
\<close>

definition spec_lookup_table :: "(pystr \<times> pystr) list" where
  "spec_lookup_table =
     [(ustr ''audio/mpeg'', ustr ''audio.mp3''),
      (ustr ''audio/wav'', ustr ''audio.wav''),
      (ustr ''audio/ogg'', ustr ''audio.ogg''),
      (ustr ''audio/mp4'', ustr ''audio.mp4''),
      (ustr ''video/mp4'', ustr ''audio.mp4''),
      (ustr ''audio/m4a'', ustr ''audio.m4a'')]"

definition spec_derived_filename :: "pystr option \<Rightarrow> pystr" where
  "spec_derived_filename ct =
     (case ct of
        None \<Rightarrow> ustr ''audio.webm''
      | Some t \<Rightarrow> (case map_of spec_lookup_table t of None \<Rightarrow> ustr ''audio.webm'' | Some n \<Rightarrow> n))"

section \<open>Example requests\<close>

text \<open>
  Concrete uploads and clients on which the theorems below are instantiated. The first
  is the scenario of the specification: a WAV upload without a filename, transcribed
  as a short Spanish sentence and answered by one choice.
\<close>

definition wav_upload :: upload_file where
  "wav_upload =
     \<lparr>filename = None, content_type = Some (ustr ''audio/wav''), read = Inr [82, 73, 70, 70]\<rparr>"

definition other_wav_upload :: upload_file where
  "other_wav_upload =
     \<lparr>filename = None, content_type = Some (ustr ''audio/wav''), read = Inr [0, 255]\<rparr>"

definition blob_upload :: upload_file where
  "blob_upload =
     \<lparr>filename = Some (ustr ''blob''), content_type = Some (ustr ''audio/webm''),
      read = Inr [26, 69, 223, 163]\<rparr>"

definition empty_name_upload :: upload_file where
  "empty_name_upload = \<lparr>filename = Some [], content_type = None, read = Inr [26, 69]\<rparr>"

definition unreadable_upload :: upload_file where
  "unreadable_upload =
     \<lparr>filename = Some (ustr ''a.wav''), content_type = Some (ustr ''audio/wav''),
      read = Inl (Exception (ustr ''I/O operation on closed file.''))\<rparr>"

definition one_choice :: "pystr \<Rightarrow> exception + chat_completion" where
  "one_choice s = Inr (ChatCompletion [Choice (ChatCompletionMessage (Some s))])"

definition pedir_ayuda :: pystr where
  "pedir_ayuda = ustr ''Tal vez podr'' @ [237] @ ustr ''as pedir ayuda directamente.''"

definition helpful_client :: openai_client where
  "helpful_client =
     \<lparr>transcriptions_create = (\<lambda>_. Inr (Transcription (ustr ''hola, necesito ayuda''))),
      completions_create = (\<lambda>_. one_choice ([32] @ pedir_ayuda @ [10]))\<rparr>"

definition whisper_down_client :: openai_client where
  "whisper_down_client =
     \<lparr>transcriptions_create = (\<lambda>_. Inl (OpenAIError (ustr ''Connection error.''))),
      completions_create = (\<lambda>_. one_choice pedir_ayuda)\<rparr>"

definition llm_down_client :: openai_client where
  "llm_down_client =
     \<lparr>transcriptions_create = (\<lambda>_. Inr (Transcription (ustr ''hola, necesito ayuda''))),
      completions_create = (\<lambda>_. Inl (OpenAIError (ustr ''Rate limit reached''))) \<rparr>"

definition silent_client :: openai_client where
  "silent_client =
     \<lparr>transcriptions_create = (\<lambda>_. Inr (Transcription [])),
      completions_create = (\<lambda>_. one_choice pedir_ayuda)\<rparr>"

definition no_choices_client :: openai_client where
  "no_choices_client =
     \<lparr>transcriptions_create = (\<lambda>_. Inr (Transcription (ustr ''hola, necesito ayuda''))),
      completions_create = (\<lambda>_. Inr (ChatCompletion []))\<rparr>"

definition padded_client :: openai_client where
  "padded_client =
     \<lparr>transcriptions_create = (\<lambda>_. Inr (Transcription (ustr ''  hola  ''))),
      completions_create = (\<lambda>_. Inl (Exception (ustr ''timed out'')))\<rparr>"

section \<open>Auxiliary facts\<close>

lemma ustr_eq_iff [simp]: "ustr a = ustr b \<longleftrightarrow> a = b"
  unfolding ustr_def using inj_of_char [where ?'a = nat] by (simp add: inj_map_eq_map)

lemma ustr_Nil_iff [simp]: "ustr a = [] \<longleftrightarrow> a = []"
  by (simp add: ustr_def)

lemma transcription_calls_append [simp]:
  "transcription_calls (xs @ ys) = transcription_calls xs @ transcription_calls ys"
  by (induction xs rule: transcription_calls.induct) simp_all

lemma advice_calls_append [simp]:
  "advice_calls (xs @ ys) = advice_calls xs @ advice_calls ys"
  by (induction xs rule: advice_calls.induct) simp_all

text \<open>
  \<open>strip\<close> only removes whitespace, only at the two ends, and leaves none there.
\<close>

lemma strip_decomp:
  "s = takeWhile isspace s @ strip s @ rev (takeWhile isspace (rev (dropWhile isspace s)))"
proof -
  let ?t = "dropWhile isspace s"
  have "strip s @ rev (takeWhile isspace (rev ?t))
        = rev (takeWhile isspace (rev ?t) @ dropWhile isspace (rev ?t))"
    by (simp only: strip_def rev_append)
  also have "\<dots> = ?t"
    by (simp only: takeWhile_dropWhile_id rev_rev_ident)
  finally have "takeWhile isspace s @ strip s @ rev (takeWhile isspace (rev ?t))
        = takeWhile isspace s @ ?t"
    by simp
  then show ?thesis by (simp only: takeWhile_dropWhile_id)
qed

lemma strip_ends:
  assumes "strip s \<noteq> []"
  shows "\<not> isspace (hd (strip s))" "\<not> isspace (last (strip s))"
proof -
  let ?t = "dropWhile isspace s"
  let ?d = "dropWhile isspace (rev ?t)"
  from assms have d: "?d \<noteq> []" by (simp add: strip_def)
  have t: "?t \<noteq> []"
  proof
    assume "?t = []"
    then have "?d = []" by (simp only: rev.simps dropWhile.simps)
    with d show False by (simp only: not_False_eq_True)
  qed
  have "last (strip s) = hd ?d" using d by (simp only: strip_def last_rev)
  then show "\<not> isspace (last (strip s))" using d hd_dropWhile [of isspace "rev ?t"] by simp
  have "rev ?t = takeWhile isspace (rev ?t) @ ?d" by (simp only: takeWhile_dropWhile_id)
  then have "last (rev ?t) = last ?d" using d by (metis last_appendR)
  moreover have "hd (strip s) = last ?d" using d by (simp only: strip_def hd_rev)
  moreover have "last (rev ?t) = hd ?t" using t by (simp only: last_rev)
  ultimately have "hd (strip s) = hd ?t" by simp
  then show "\<not> isspace (hd (strip s))" using t hd_dropWhile [of isspace s] by simp
qed

text \<open>What the first \<open>try\<close> body yields and which remote calls it adds to the history.\<close>

lemma transcribe_read_fails:
  "read u = Inl e \<Longrightarrow> transcribe c u w = (Inl e, w)"
  by (simp add: transcribe_def)

lemma transcribe_create_fails:
  "read u = Inr d \<Longrightarrow> transcriptions_create c (whisper_request u d) = Inl e \<Longrightarrow>
   \<exists>w1. transcribe c u w = (Inl e, w1) \<and> advice_calls w1 = advice_calls w
     \<and> transcription_calls w1 = transcription_calls w @ [whisper_request u d]"
  by (simp add: transcribe_def Let_def)

lemma transcribe_ok:
  "read u = Inr d \<Longrightarrow> transcriptions_create c (whisper_request u d) = Inr resp \<Longrightarrow>
   \<exists>w1. transcribe c u w = (Inr (response_text resp), w1) \<and> advice_calls w1 = advice_calls w
     \<and> transcription_calls w1 = transcription_calls w @ [whisper_request u d]"
  by (simp add: transcribe_def Let_def)

lemma advise_calls:
  "advice_calls (snd (advise c t w)) = advice_calls w @ [advice_request t]"
  by (simp add: advise_def Let_def split: sum.splits)

lemma advise_result:
  "fst (advise c t w) =
     (case completions_create c (advice_request t) of
        Inl e \<Rightarrow> Inl e
      | Inr cr \<Rightarrow> first_choice_text cr)"
  by (simp add: advise_def Let_def split: sum.splits)

lemma advice_step_result:
  "fst (advice_step c t w) =
     (if t = [] then ustr ''Transcription failed, cannot generate advice.''
      else case fst (advise c t w) of
             Inl (OpenAIError m) \<Rightarrow> ustr ''Error generating advice from LLM.''
           | Inl (Exception m) \<Rightarrow> ustr ''Error generating advice.''
           | Inr a \<Rightarrow> a)"
  by (simp add: advice_step_def split: prod.splits sum.splits exception.splits)

lemma advice_step_calls:
  "advice_calls (snd (advice_step c t w)) =
     (if t = [] then advice_calls w else advice_calls w @ [advice_request t])"
proof (cases "t = []")
  case True
  then show ?thesis by (simp add: advice_step_def)
next
  case False
  have "advice_calls (snd (advise c t w)) = advice_calls w @ [advice_request t]"
    by (rule advise_calls)
  with False show ?thesis
    by (auto simp: advice_step_def split: prod.splits sum.splits exception.splits)
qed

lemma process_audio_ok:
  assumes "read u = Inr d" and "transcriptions_create c (whisper_request u d) = Inr resp"
  shows "\<exists>w1. advice_calls w1 = advice_calls w
           \<and> transcription_calls w1 = transcription_calls w @ [whisper_request u d]
           \<and> process_audio c u w =
               (Inr \<lparr>transcription = response_text resp,
                     advice = fst (advice_step c (response_text resp) w1)\<rparr>,
                snd (advice_step c (response_text resp) w1))"
proof -
  let ?w = "w @ [Log INFO (ustr ''Received audio file: '' @ format_opt (filename u)
                      @ ustr '', Content-Type: '' @ format_opt (content_type u))]"
  from transcribe_ok [OF assms, of ?w] obtain w1 where
    t: "transcribe c u ?w = (Inr (response_text resp), w1)"
    and a: "advice_calls w1 = advice_calls ?w"
    and tc: "transcription_calls w1 = transcription_calls ?w @ [whisper_request u d]"
    by blast
  have "process_audio c u w =
               (Inr \<lparr>transcription = response_text resp,
                     advice = fst (advice_step c (response_text resp) w1)\<rparr>,
                snd (advice_step c (response_text resp) w1))"
    using t by (simp add: process_audio_def Let_def split: prod.splits)
  with a tc show ?thesis by auto
qed

lemma guess_filename_table: "guess_filename ct = spec_derived_filename ct"
proof (cases ct)
  case None
  then show ?thesis by (simp add: guess_filename_def spec_derived_filename_def)
next
  case (Some t)
  then show ?thesis
    by (simp add: guess_filename_def spec_derived_filename_def spec_lookup_table_def)
qed

lemma sent_filename:
  assumes "read u = Inr d"
  shows "map (fst \<circ> file_tuple) (transcription_calls (snd (process_audio c u w))) =
         map (fst \<circ> file_tuple) (transcription_calls w) @ [filename_for_api u]"
proof -
  let ?w = "w @ [Log INFO (ustr ''Received audio file: '' @ format_opt (filename u)
                      @ ustr '', Content-Type: '' @ format_opt (content_type u))]"
  have adv: "transcription_calls (snd (advice_step c t v)) = transcription_calls v" for t v
    by (simp add: advice_step_def advise_def Let_def split: prod.splits sum.splits exception.splits)
  show ?thesis
  proof (cases "transcriptions_create c (whisper_request u d)")
    case (Inl e)
    from transcribe_create_fails [OF assms Inl, of ?w] obtain w1 where
      "transcribe c u ?w = (Inl e, w1)"
      "transcription_calls w1 = transcription_calls ?w @ [whisper_request u d]"
      by blast
    then show ?thesis
      by (cases e) (simp_all add: process_audio_def whisper_request_def)
  next
    case (Inr resp)
    from process_audio_ok [OF assms Inr, of w] obtain w1 where
      "transcription_calls w1 = transcription_calls w @ [whisper_request u d]"
      "process_audio c u w =
               (Inr \<lparr>transcription = response_text resp,
                     advice = fst (advice_step c (response_text resp) w1)\<rparr>,
                snd (advice_step c (response_text resp) w1))"
      by blast
    then show ?thesis by (simp add: adv whisper_request_def)
  qed
qed

section \<open>The claims\<close>

text \<open>
  C1. When the transcription step fails, by an \<open>OpenAIError\<close> of the transcription call
  or by any other exception raised in the first \<open>try\<close> (reading the upload included),
  \<open>process_audio\<close> raises an \<open>HTTPException\<close> with status 500 whose detail is a fixed
  prefix followed by the message of the error, and no call to the advice service is
  added to the history.
\<close>

theorem transcription_failure_is_fatal:
  assumes "read audio_file = Inl e \<or>
           (\<exists>audio_data. read audio_file = Inr audio_data \<and>
              transcriptions_create client (whisper_request audio_file audio_data) = Inl e)"
  shows "fst (process_audio client audio_file w) =
           Inl \<lparr>status_code = 500,
                detail = (case e of OpenAIError m \<Rightarrow> ustr ''Whisper API error: '' @ m
                                  | Exception m \<Rightarrow> ustr ''Failed to transcribe audio: '' @ m)\<rparr>
         \<and> (\<exists>d. fst (process_audio client audio_file w) = Inl \<lparr>status_code = 500, detail = d\<rparr>
                \<and> sublist (str_of e) d)
         \<and> http_status (fst (process_audio client audio_file w)) = 500
         \<and> advice_calls (snd (process_audio client audio_file w)) = advice_calls w"
  using assms
  by (cases e)
    (auto simp: process_audio_def transcribe_def Let_def http_status_def
          split: prod.splits sum.splits exception.splits)

theorem transcription_failure_is_fatal_witness:
  "read wav_upload = Inr [82, 73, 70, 70]
   \<and> transcriptions_create whisper_down_client (whisper_request wav_upload [82, 73, 70, 70])
       = Inl (OpenAIError (ustr ''Connection error.''))
   \<and> fst (process_audio whisper_down_client wav_upload []) =
       Inl \<lparr>status_code = 500, detail = ustr ''Whisper API error: Connection error.''\<rparr>
   \<and> advice_calls (snd (process_audio whisper_down_client wav_upload [])) = []
   \<and> read unreadable_upload = Inl (Exception (ustr ''I/O operation on closed file.''))
   \<and> fst (process_audio helpful_client unreadable_upload []) =
       Inl \<lparr>status_code = 500,
            detail = ustr ''Failed to transcribe audio: I/O operation on closed file.''\<rparr>"
proof -
  have a: "read wav_upload = Inr [82, 73, 70, 70]"
    "transcriptions_create whisper_down_client (whisper_request wav_upload [82, 73, 70, 70])
       = Inl (OpenAIError (ustr ''Connection error.''))"
    by (simp_all add: wav_upload_def whisper_down_client_def)
  then have h: "read wav_upload = Inl (OpenAIError (ustr ''Connection error.'')) \<or>
           (\<exists>audio_data. read wav_upload = Inr audio_data \<and>
              transcriptions_create whisper_down_client (whisper_request wav_upload audio_data)
                = Inl (OpenAIError (ustr ''Connection error.'')))"
    by blast
  have b: "read unreadable_upload = Inl (Exception (ustr ''I/O operation on closed file.''))"
    by (simp add: unreadable_upload_def)
  then have k: "read unreadable_upload = Inl (Exception (ustr ''I/O operation on closed file.'')) \<or>
           (\<exists>audio_data. read unreadable_upload = Inr audio_data \<and>
              transcriptions_create helpful_client (whisper_request unreadable_upload audio_data)
                = Inl (Exception (ustr ''I/O operation on closed file.'')))"
    by blast
  from transcription_failure_is_fatal [OF h, of "[]"]
       transcription_failure_is_fatal [OF k, of "[]"] a b
  show ?thesis by (simp add: ustr_def)
qed

text \<open>
  C2. When the transcription succeeds with non-empty text and the advice step then
  fails, \<open>process_audio\<close> returns normally (status 200) with the transcription in
  place: an \<open>OpenAIError\<close> gives the advice "Error generating advice from LLM.", any
  other exception of the second \<open>try\<close> gives "Error generating advice.".
\<close>

theorem advice_failure_is_not_fatal:
  assumes "read audio_file = Inr audio_data"
    and "transcriptions_create client (whisper_request audio_file audio_data) = Inr resp"
    and "response_text resp \<noteq> []"
    and "completions_create client (advice_request (response_text resp)) = Inl e \<or>
         (\<exists>cr. completions_create client (advice_request (response_text resp)) = Inr cr \<and>
               first_choice_text cr = Inl e)"
  shows "fst (process_audio client audio_file w) =
           Inr \<lparr>transcription = response_text resp,
                advice = (case e of OpenAIError m \<Rightarrow> ustr ''Error generating advice from LLM.''
                                  | Exception m \<Rightarrow> ustr ''Error generating advice.'')\<rparr>
         \<and> http_status (fst (process_audio client audio_file w)) = 200"
proof -
  from process_audio_ok [OF assms(1,2), of w] obtain w1 where
    p: "process_audio client audio_file w =
               (Inr \<lparr>transcription = response_text resp,
                     advice = fst (advice_step client (response_text resp) w1)\<rparr>,
                snd (advice_step client (response_text resp) w1))"
    by blast
  have "fst (advise client (response_text resp) w1) = Inl e"
    using assms(4) by (auto simp: advise_result)
  then have "fst (advice_step client (response_text resp) w1) =
      (case e of OpenAIError m \<Rightarrow> ustr ''Error generating advice from LLM.''
               | Exception m \<Rightarrow> ustr ''Error generating advice.'')"
    using assms(3) by (simp add: advice_step_result)
  with p show ?thesis by (simp add: http_status_def)
qed

theorem advice_failure_is_not_fatal_witness:
  "read wav_upload = Inr [82, 73, 70, 70]
   \<and> transcriptions_create llm_down_client (whisper_request wav_upload [82, 73, 70, 70])
       = Inr (Transcription (ustr ''hola, necesito ayuda''))
   \<and> ustr ''hola, necesito ayuda'' \<noteq> []
   \<and> completions_create llm_down_client (advice_request (ustr ''hola, necesito ayuda''))
       = Inl (OpenAIError (ustr ''Rate limit reached''))
   \<and> fst (process_audio llm_down_client wav_upload []) =
       Inr \<lparr>transcription = ustr ''hola, necesito ayuda'',
            advice = ustr ''Error generating advice from LLM.''\<rparr>
   \<and> fst (process_audio padded_client wav_upload []) =
       Inr \<lparr>transcription = ustr ''  hola  '', advice = ustr ''Error generating advice.''\<rparr>"
proof -
  have r: "read wav_upload = Inr [82, 73, 70, 70]" by (simp add: wav_upload_def)
  have t: "transcriptions_create llm_down_client (whisper_request wav_upload [82, 73, 70, 70])
       = Inr (Transcription (ustr ''hola, necesito ayuda''))"
    by (simp add: llm_down_client_def)
  have n: "response_text (Transcription (ustr ''hola, necesito ayuda'')) \<noteq> []" by simp
  have c: "completions_create llm_down_client (advice_request (ustr ''hola, necesito ayuda''))
       = Inl (OpenAIError (ustr ''Rate limit reached''))"
    by (simp add: llm_down_client_def)
  then have f: "completions_create llm_down_client
          (advice_request (response_text (Transcription (ustr ''hola, necesito ayuda''))))
        = Inl (OpenAIError (ustr ''Rate limit reached'')) \<or>
      (\<exists>cr. completions_create llm_down_client
          (advice_request (response_text (Transcription (ustr ''hola, necesito ayuda'')))) = Inr cr
        \<and> first_choice_text cr = Inl (OpenAIError (ustr ''Rate limit reached'')))"
    by simp
  have t': "transcriptions_create padded_client (whisper_request wav_upload [82, 73, 70, 70])
       = Inr (Transcription (ustr ''  hola  ''))"
    by (simp add: padded_client_def)
  have n': "response_text (Transcription (ustr ''  hola  '')) \<noteq> []" by simp
  have f': "completions_create padded_client
          (advice_request (response_text (Transcription (ustr ''  hola  ''))))
        = Inl (Exception (ustr ''timed out'')) \<or>
      (\<exists>cr. completions_create padded_client
          (advice_request (response_text (Transcription (ustr ''  hola  '')))) = Inr cr
        \<and> first_choice_text cr = Inl (Exception (ustr ''timed out'')))"
    by (simp add: padded_client_def)
  from advice_failure_is_not_fatal [OF r t n f, of "[]"]
       advice_failure_is_not_fatal [OF r t' n' f', of "[]"] r t c
  show ?thesis by simp
qed

text \<open>
  C3. When the transcription succeeds with empty text, no call to the advice service is
  added to the history and \<open>process_audio\<close> returns normally with the advice
  "Transcription failed, cannot generate advice."; and whenever a request does call the
  advice service, the transcription had succeeded with non-empty text and the one call
  made is the request built from that text.
\<close>

theorem empty_transcription_skips_advice:
  "(\<forall>audio_data resp.
      read audio_file = Inr audio_data \<and>
      transcriptions_create client (whisper_request audio_file audio_data) = Inr resp \<and>
      response_text resp = [] \<longrightarrow>
        fst (process_audio client audio_file w) =
          Inr \<lparr>transcription = [],
               advice = ustr ''Transcription failed, cannot generate advice.''\<rparr>
        \<and> advice_calls (snd (process_audio client audio_file w)) = advice_calls w)
   \<and> (advice_calls (snd (process_audio client audio_file w)) \<noteq> advice_calls w \<longrightarrow>
        (\<exists>audio_data resp.
           read audio_file = Inr audio_data \<and>
           transcriptions_create client (whisper_request audio_file audio_data) = Inr resp \<and>
           response_text resp \<noteq> [] \<and>
           advice_calls (snd (process_audio client audio_file w)) =
             advice_calls w @ [advice_request (response_text resp)]))"
proof (intro conjI allI impI)
  fix audio_data resp
  assume h: "read audio_file = Inr audio_data \<and>
      transcriptions_create client (whisper_request audio_file audio_data) = Inr resp \<and>
      response_text resp = []"
  then have r: "read audio_file = Inr audio_data"
    and t: "transcriptions_create client (whisper_request audio_file audio_data) = Inr resp"
    and e: "response_text resp = []" by simp_all
  from process_audio_ok [OF r t, of w] obtain w1 where
    a: "advice_calls w1 = advice_calls w" and
    p: "process_audio client audio_file w =
               (Inr \<lparr>transcription = response_text resp,
                     advice = fst (advice_step client (response_text resp) w1)\<rparr>,
                snd (advice_step client (response_text resp) w1))"
    by blast
  show "fst (process_audio client audio_file w) =
          Inr \<lparr>transcription = [],
               advice = ustr ''Transcription failed, cannot generate advice.''\<rparr>"
    using p e by (simp add: advice_step_result)
  show "advice_calls (snd (process_audio client audio_file w)) = advice_calls w"
    using p e a by (simp add: advice_step_calls)
next
  assume changed: "advice_calls (snd (process_audio client audio_file w)) \<noteq> advice_calls w"
  show "\<exists>audio_data resp.
           read audio_file = Inr audio_data \<and>
           transcriptions_create client (whisper_request audio_file audio_data) = Inr resp \<and>
           response_text resp \<noteq> [] \<and>
           advice_calls (snd (process_audio client audio_file w)) =
             advice_calls w @ [advice_request (response_text resp)]"
  proof (cases "read audio_file")
    case (Inl e)
    then have "advice_calls (snd (process_audio client audio_file w)) = advice_calls w"
      by (cases e) (simp_all add: process_audio_def transcribe_read_fails)
    with changed show ?thesis by simp
  next
    case (Inr audio_data)
    show ?thesis
    proof (cases "transcriptions_create client (whisper_request audio_file audio_data)")
      case (Inl e)
      let ?w = "w @ [Log INFO (ustr ''Received audio file: '' @ format_opt (filename audio_file)
                      @ ustr '', Content-Type: '' @ format_opt (content_type audio_file))]"
      from transcribe_create_fails [OF Inr Inl, of ?w] obtain w1 where
        "transcribe client audio_file ?w = (Inl e, w1)" "advice_calls w1 = advice_calls ?w"
        by blast
      then have "advice_calls (snd (process_audio client audio_file w)) = advice_calls w"
        by (cases e) (simp_all add: process_audio_def)
      with changed show ?thesis by simp
    next
      case ok: (Inr resp)
      from process_audio_ok [OF Inr ok, of w] obtain w1 where
        a: "advice_calls w1 = advice_calls w" and
        p: "process_audio client audio_file w =
               (Inr \<lparr>transcription = response_text resp,
                     advice = fst (advice_step client (response_text resp) w1)\<rparr>,
                snd (advice_step client (response_text resp) w1))"
        by blast
      have c: "advice_calls (snd (process_audio client audio_file w)) =
          (if response_text resp = [] then advice_calls w
           else advice_calls w @ [advice_request (response_text resp)])"
        using p a by (simp add: advice_step_calls)
      with changed have ne: "response_text resp \<noteq> []" by auto
      with c Inr ok show ?thesis by auto
    qed
  qed
qed

theorem empty_transcription_skips_advice_witness:
  "read wav_upload = Inr [82, 73, 70, 70]
   \<and> transcriptions_create silent_client (whisper_request wav_upload [82, 73, 70, 70])
       = Inr (Transcription [])
   \<and> fst (process_audio silent_client wav_upload []) =
       Inr \<lparr>transcription = [],
            advice = ustr ''Transcription failed, cannot generate advice.''\<rparr>
   \<and> advice_calls (snd (process_audio silent_client wav_upload [])) = []
   \<and> advice_calls (snd (process_audio helpful_client wav_upload [])) \<noteq> advice_calls []
   \<and> (\<exists>audio_data resp.
         read wav_upload = Inr audio_data \<and>
         transcriptions_create helpful_client (whisper_request wav_upload audio_data) = Inr resp \<and>
         response_text resp \<noteq> [] \<and>
         advice_calls (snd (process_audio helpful_client wav_upload [])) =
           advice_calls [] @ [advice_request (response_text resp)])"
proof -
  have r: "read wav_upload = Inr [82, 73, 70, 70]" by (simp add: wav_upload_def)
  have t: "transcriptions_create silent_client (whisper_request wav_upload [82, 73, 70, 70])
       = Inr (Transcription [])"
    by (simp add: silent_client_def)
  have t': "transcriptions_create helpful_client (whisper_request wav_upload [82, 73, 70, 70])
       = Inr (Transcription (ustr ''hola, necesito ayuda''))"
    by (simp add: helpful_client_def)
  from process_audio_ok [OF r t', of "[]"]
  have ch: "advice_calls (snd (process_audio helpful_client wav_upload [])) \<noteq> advice_calls []"
    by (auto simp: advice_step_calls)
  from empty_transcription_skips_advice [of wav_upload silent_client "[]"] r t
  have 1: "fst (process_audio silent_client wav_upload []) =
       Inr \<lparr>transcription = [],
            advice = ustr ''Transcription failed, cannot generate advice.''\<rparr>
     \<and> advice_calls (snd (process_audio silent_client wav_upload [])) = []"
    by simp
  from empty_transcription_skips_advice [of wav_upload helpful_client "[]"] ch
  have 2: "\<exists>audio_data resp.
         read wav_upload = Inr audio_data \<and>
         transcriptions_create helpful_client (whisper_request wav_upload audio_data) = Inr resp \<and>
         response_text resp \<noteq> [] \<and>
         advice_calls (snd (process_audio helpful_client wav_upload [])) =
           advice_calls [] @ [advice_request (response_text resp)]"
    by blast
  from r t ch 1 2 show ?thesis by blast
qed

text \<open>
  C4, as stated, at an upload whose filename is the empty string: the claim has a
  filename that is present used as it is, so the empty name would be sent; the test
  \<open>not audio_file.filename\<close> of line 72 treats the empty string like \<open>None\<close>, and the
  name sent to the transcription service is "audio.webm".
\<close>

theorem empty_filename_is_replaced:
  "filename empty_name_upload = Some []
   \<and> read empty_name_upload = Inr [26, 69]
   \<and> map (fst \<circ> file_tuple)
        (transcription_calls (snd (process_audio helpful_client empty_name_upload [])))
       = [ustr ''audio.webm'']
   \<and> ustr ''audio.webm'' \<noteq> []"
proof -
  have a: "filename empty_name_upload = Some []" "read empty_name_upload = Inr [26, 69]"
    "content_type empty_name_upload = None"
    by (simp_all add: empty_name_upload_def)
  have "filename_for_api empty_name_upload = ustr ''audio.webm''"
    using a by (simp add: filename_for_api_def guess_filename_def)
  with sent_filename [OF a(2), of helpful_client "[]"] a show ?thesis by simp
qed

text \<open>
  C4, amended. For every upload whose filename is absent or the empty string, the
  filename sent to the transcription service is derived from the declared content type
  by the fixed table (audio/mpeg to "audio.mp3", audio/wav to "audio.wav", audio/ogg
  to "audio.ogg", audio/mp4 and video/mp4 to "audio.mp4", audio/m4a to "audio.m4a",
  any other or absent content type to "audio.webm"); for every upload with a
  non-empty filename, that filename is sent as it is.
\<close>

theorem filename_resolution:
  "(filename audio_file = None \<or> filename audio_file = Some [] \<longrightarrow>
      filename_for_api audio_file = spec_derived_filename (content_type audio_file))
   \<and> (\<forall>name. filename audio_file = Some name \<and> name \<noteq> [] \<longrightarrow>
         filename_for_api audio_file = name)
   \<and> (\<forall>audio_data. read audio_file = Inr audio_data \<longrightarrow>
         map (fst \<circ> file_tuple) (transcription_calls (snd (process_audio client audio_file w))) =
         map (fst \<circ> file_tuple) (transcription_calls w) @ [filename_for_api audio_file])"
  by (auto simp: filename_for_api_def guess_filename_table sent_filename)

theorem filename_resolution_witness:
  "filename wav_upload = None
   \<and> filename_for_api wav_upload = ustr ''audio.wav''
   \<and> filename blob_upload = Some (ustr ''blob'') \<and> ustr ''blob'' \<noteq> []
   \<and> filename_for_api blob_upload = ustr ''blob''
   \<and> read wav_upload = Inr [82, 73, 70, 70]
   \<and> map (fst \<circ> file_tuple) (transcription_calls (snd (process_audio helpful_client wav_upload [])))
       = [ustr ''audio.wav'']"
proof -
  have a: "filename wav_upload = None" "read wav_upload = Inr [82, 73, 70, 70]"
    "content_type wav_upload = Some (ustr ''audio/wav'')"
    by (simp_all add: wav_upload_def)
  have b: "filename blob_upload = Some (ustr ''blob'')" "ustr ''blob'' \<noteq> []"
    by (simp_all add: blob_upload_def)
  have t: "spec_derived_filename (Some (ustr ''audio/wav'')) = ustr ''audio.wav''"
    by (simp add: spec_derived_filename_def spec_lookup_table_def)
  from filename_resolution [of wav_upload helpful_client "[]"] a t
  have 1: "filename_for_api wav_upload = ustr ''audio.wav''"
    and 2: "map (fst \<circ> file_tuple) (transcription_calls (snd (process_audio helpful_client wav_upload [])))
       = [ustr ''audio.wav'']"
    by simp_all
  from filename_resolution [of blob_upload helpful_client "[]"] b
  have 3: "filename_for_api blob_upload = ustr ''blob''" by blast
  from a b 1 2 3 show ?thesis by simp
qed

text \<open>
  C5. When the transcription succeeds with non-empty text \<open>T\<close>, exactly one call to the
  advice service is added to the history; its user message is \<open>T\<close> between a fixed
  prefix and a fixed suffix, so it contains \<open>T\<close> verbatim; and the response returned
  has \<open>T\<close> as its transcription.
\<close>

theorem advice_called_once_with_transcript:
  assumes "read audio_file = Inr audio_data"
    and "transcriptions_create client (whisper_request audio_file audio_data) = Inr resp"
    and "response_text resp = T"
    and "T \<noteq> []"
  shows "advice_calls (snd (process_audio client audio_file w)) = advice_calls w @ [advice_request T]
     \<and> map content (filter (\<lambda>m. role m = ustr ''user'') (messages (advice_request T)))
         = [user_prefix @ T @ user_suffix]
     \<and> sublist T (user_prefix @ T @ user_suffix)
     \<and> (\<exists>a. fst (process_audio client audio_file w) = Inr \<lparr>transcription = T, advice = a\<rparr>)"
proof -
  from process_audio_ok [OF assms(1,2), of w] obtain w1 where
    a: "advice_calls w1 = advice_calls w" and
    p: "process_audio client audio_file w =
               (Inr \<lparr>transcription = response_text resp,
                     advice = fst (advice_step client (response_text resp) w1)\<rparr>,
                snd (advice_step client (response_text resp) w1))"
    by blast
  have 1: "advice_calls (snd (process_audio client audio_file w)) = advice_calls w @ [advice_request T]"
    using p a assms(3,4) by (simp add: advice_step_calls)
  have 2: "map content (filter (\<lambda>m. role m = ustr ''user'') (messages (advice_request T)))
         = [user_prefix @ T @ user_suffix]"
    by (simp add: advice_request_def user_message_def)
  have 3: "sublist T (user_prefix @ T @ user_suffix)"
    by (rule sublist_appendI)
  have 4: "\<exists>a. fst (process_audio client audio_file w) = Inr \<lparr>transcription = T, advice = a\<rparr>"
    using p assms(3) by simp
  from 1 2 3 4 show ?thesis by blast
qed

theorem advice_called_once_with_transcript_witness:
  "read wav_upload = Inr [82, 73, 70, 70]
   \<and> transcriptions_create helpful_client (whisper_request wav_upload [82, 73, 70, 70])
       = Inr (Transcription (ustr ''hola, necesito ayuda''))
   \<and> ustr ''hola, necesito ayuda'' \<noteq> []
   \<and> advice_calls (snd (process_audio helpful_client wav_upload [])) =
       [advice_request (ustr ''hola, necesito ayuda'')]
   \<and> (\<exists>a. fst (process_audio helpful_client wav_upload []) =
         Inr \<lparr>transcription = ustr ''hola, necesito ayuda'', advice = a\<rparr>)"
proof -
  have r: "read wav_upload = Inr [82, 73, 70, 70]" by (simp add: wav_upload_def)
  have t: "transcriptions_create helpful_client (whisper_request wav_upload [82, 73, 70, 70])
       = Inr (Transcription (ustr ''hola, necesito ayuda''))"
    by (simp add: helpful_client_def)
  have x: "response_text (Transcription (ustr ''hola, necesito ayuda'')) = ustr ''hola, necesito ayuda''"
    by simp
  have n: "ustr ''hola, necesito ayuda'' \<noteq> []" by simp
  from advice_called_once_with_transcript [OF r t x n, of "[]"] r t n
  show ?thesis by simp
qed

text \<open>
  C6. When the advice service is called and returns a first choice with content \<open>s\<close>,
  the advice of the response is \<open>s.strip()\<close>: \<open>s\<close> without a whitespace-only prefix and
  a whitespace-only suffix, with no whitespace left at either end. The call is made
  with \<open>max_tokens = 100\<close> and \<open>temperature = 0.7\<close>.
\<close>

theorem advice_is_trimmed_first_choice:
  assumes "read audio_file = Inr audio_data"
    and "transcriptions_create client (whisper_request audio_file audio_data) = Inr resp"
    and "response_text resp \<noteq> []"
    and "completions_create client (advice_request (response_text resp)) = Inr cr"
    and "choices cr = ch # rest"
    and "message_content (choice_message ch) = Some s"
  shows "fst (process_audio client audio_file w) =
           Inr \<lparr>transcription = response_text resp, advice = strip s\<rparr>
     \<and> (\<exists>l r. s = l @ strip s @ r \<and> list_all isspace l \<and> list_all isspace r)
     \<and> (strip s \<noteq> [] \<longrightarrow> \<not> isspace (hd (strip s)) \<and> \<not> isspace (last (strip s)))
     \<and> (\<exists>req. advice_calls (snd (process_audio client audio_file w)) = advice_calls w @ [req]
            \<and> max_tokens req = 100 \<and> temperature req = 7 / 10)"
proof -
  from process_audio_ok [OF assms(1,2), of w] obtain w1 where
    a: "advice_calls w1 = advice_calls w" and
    p: "process_audio client audio_file w =
               (Inr \<lparr>transcription = response_text resp,
                     advice = fst (advice_step client (response_text resp) w1)\<rparr>,
                snd (advice_step client (response_text resp) w1))"
    by blast
  have "fst (advise client (response_text resp) w1) = Inr (strip s)"
    using assms(4,5,6) by (simp add: advise_result first_choice_text_def)
  then have "fst (advice_step client (response_text resp) w1) = strip s"
    using assms(3) by (simp add: advice_step_result)
  with p have 1: "fst (process_audio client audio_file w) =
           Inr \<lparr>transcription = response_text resp, advice = strip s\<rparr>" by simp
  have "list_all isspace (takeWhile isspace s)"
    "list_all isspace (rev (takeWhile isspace (rev (dropWhile isspace s))))"
    by (auto simp: list_all_iff dest: set_takeWhileD)
  with strip_decomp [of s]
  have 2: "\<exists>l r. s = l @ strip s @ r \<and> list_all isspace l \<and> list_all isspace r" by blast
  have 3: "strip s \<noteq> [] \<longrightarrow> \<not> isspace (hd (strip s)) \<and> \<not> isspace (last (strip s))"
    using strip_ends [of s] by blast
  have "advice_calls (snd (process_audio client audio_file w)) =
          advice_calls w @ [advice_request (response_text resp)]"
    using p a assms(3) by (simp add: advice_step_calls)
  moreover have "max_tokens (advice_request (response_text resp)) = 100"
    "temperature (advice_request (response_text resp)) = 7 / 10"
    by (simp_all add: advice_request_def)
  ultimately have 4: "\<exists>req. advice_calls (snd (process_audio client audio_file w)) = advice_calls w @ [req]
            \<and> max_tokens req = 100 \<and> temperature req = 7 / 10" by blast
  from 1 2 3 4 show ?thesis by blast
qed

theorem advice_is_trimmed_first_choice_witness:
  "read wav_upload = Inr [82, 73, 70, 70]
   \<and> transcriptions_create helpful_client (whisper_request wav_upload [82, 73, 70, 70])
       = Inr (Transcription (ustr ''hola, necesito ayuda''))
   \<and> completions_create helpful_client (advice_request (ustr ''hola, necesito ayuda''))
       = Inr (ChatCompletion [Choice (ChatCompletionMessage (Some ([32] @ pedir_ayuda @ [10])))])
   \<and> fst (process_audio helpful_client wav_upload []) =
       Inr \<lparr>transcription = ustr ''hola, necesito ayuda'', advice = pedir_ayuda\<rparr>"
proof -
  have r: "read wav_upload = Inr [82, 73, 70, 70]" by (simp add: wav_upload_def)
  have t: "transcriptions_create helpful_client (whisper_request wav_upload [82, 73, 70, 70])
       = Inr (Transcription (ustr ''hola, necesito ayuda''))"
    by (simp add: helpful_client_def)
  have n: "response_text (Transcription (ustr ''hola, necesito ayuda'')) \<noteq> []" by simp
  have c: "completions_create helpful_client
        (advice_request (response_text (Transcription (ustr ''hola, necesito ayuda''))))
       = Inr (ChatCompletion [Choice (ChatCompletionMessage (Some ([32] @ pedir_ayuda @ [10])))])"
    by (simp add: helpful_client_def one_choice_def)
  have ch: "choices (ChatCompletion [Choice (ChatCompletionMessage (Some ([32] @ pedir_ayuda @ [10])))])
       = Choice (ChatCompletionMessage (Some ([32] @ pedir_ayuda @ [10]))) # []"
    by simp
  have m: "message_content (choice_message (Choice (ChatCompletionMessage (Some ([32] @ pedir_ayuda @ [10])))))
       = Some ([32] @ pedir_ayuda @ [10])"
    by simp
  have s: "strip ([32] @ pedir_ayuda @ [10]) = pedir_ayuda"
    by (simp add: strip_def pedir_ayuda_def ustr_def isspace_def)
  from advice_is_trimmed_first_choice [OF r t n c ch m, of "[]"] r t c s
  show ?thesis by simp
qed

text \<open>
  C7. The handler of \<open>GET /\<close> returns normally (status 200) with the same fixed message
  whatever happened before, and it leaves the history of effects as it found it.
\<close>

theorem root_is_constant:
  "root w = (Inr \<lparr>message = ustr ''Wearable AI Backend is running''\<rparr>, w)
   \<and> http_status (fst (root w)) = 200
   \<and> fst (root w) = fst (root w')"
  by (simp add: root_def http_status_def)

text \<open>
  C8. The filename sent to the transcription service depends on the upload's filename
  and declared content type only: two uploads that agree on both and whose bytes are
  read successfully, whatever the bytes, the client and the history, send the same
  filename.
\<close>

theorem filename_ignores_bytes:
  assumes "filename u1 = filename u2" and "content_type u1 = content_type u2"
    and "read u1 = Inr d1" and "read u2 = Inr d2"
  shows "filename_for_api u1 = filename_for_api u2
     \<and> (\<exists>n. map (fst \<circ> file_tuple) (transcription_calls (snd (process_audio c1 u1 w1))) =
              map (fst \<circ> file_tuple) (transcription_calls w1) @ [n]
            \<and> map (fst \<circ> file_tuple) (transcription_calls (snd (process_audio c2 u2 w2))) =
              map (fst \<circ> file_tuple) (transcription_calls w2) @ [n])"
proof -
  have e: "filename_for_api u1 = filename_for_api u2"
    by (simp only: filename_for_api_def assms(1,2))
  from sent_filename [OF assms(3), of c1 w1] sent_filename [OF assms(4), of c2 w2] e
  show ?thesis by simp
qed

theorem filename_ignores_bytes_witness:
  "filename wav_upload = filename other_wav_upload
   \<and> content_type wav_upload = content_type other_wav_upload
   \<and> read wav_upload = Inr [82, 73, 70, 70] \<and> read other_wav_upload = Inr [0, 255]
   \<and> filename_for_api wav_upload = filename_for_api other_wav_upload
   \<and> map (fst \<circ> file_tuple) (transcription_calls (snd (process_audio helpful_client wav_upload [])))
     = map (fst \<circ> file_tuple)
         (transcription_calls (snd (process_audio silent_client other_wav_upload [])))"
proof -
  have a: "filename wav_upload = filename other_wav_upload"
    "content_type wav_upload = content_type other_wav_upload"
    "read wav_upload = Inr [82, 73, 70, 70]" "read other_wav_upload = Inr [0, 255]"
    by (simp_all add: wav_upload_def other_wav_upload_def)
  from filename_ignores_bytes [OF a, of helpful_client "[]" silent_client "[]"] a
  show ?thesis by auto
qed

text \<open>
  C9. Once the transcription has succeeded, \<open>process_audio\<close> returns normally (status
  200) whatever the advice service does. In particular, when the advice service
  returns a response with no choices, or with a first choice whose content is \<open>None\<close>,
  line 133 raises an exception that is not an \<open>OpenAIError\<close>, the second handler
  catches it, and the advice is "Error generating advice.".
\<close>

theorem malformed_completion_is_not_fatal:
  assumes "read audio_file = Inr audio_data"
    and "transcriptions_create client (whisper_request audio_file audio_data) = Inr resp"
  shows "(\<exists>r. fst (process_audio client audio_file w) = Inr r)
     \<and> http_status (fst (process_audio client audio_file w)) = 200
     \<and> (\<forall>cr. response_text resp \<noteq> [] \<and>
             completions_create client (advice_request (response_text resp)) = Inr cr \<and>
             (choices cr = [] \<or>
              (\<exists>ch rest. choices cr = ch # rest \<and> message_content (choice_message ch) = None))
           \<longrightarrow> (\<exists>m. first_choice_text cr = Inl (Exception m))
               \<and> fst (process_audio client audio_file w) =
                   Inr \<lparr>transcription = response_text resp,
                        advice = ustr ''Error generating advice.''\<rparr>)"
proof -
  from process_audio_ok [OF assms(1,2), of w] obtain w1 where
    p: "process_audio client audio_file w =
               (Inr \<lparr>transcription = response_text resp,
                     advice = fst (advice_step client (response_text resp) w1)\<rparr>,
                snd (advice_step client (response_text resp) w1))"
    by blast
  have 1: "\<exists>r. fst (process_audio client audio_file w) = Inr r" using p by simp
  have 2: "http_status (fst (process_audio client audio_file w)) = 200"
    using p by (simp add: http_status_def)
  have 3: "(\<exists>m. first_choice_text cr = Inl (Exception m))
               \<and> fst (process_audio client audio_file w) =
                   Inr \<lparr>transcription = response_text resp,
                        advice = ustr ''Error generating advice.''\<rparr>"
    if h: "response_text resp \<noteq> [] \<and>
             completions_create client (advice_request (response_text resp)) = Inr cr \<and>
             (choices cr = [] \<or>
              (\<exists>ch rest. choices cr = ch # rest \<and> message_content (choice_message ch) = None))"
    for cr
  proof -
    from h have f: "\<exists>m. first_choice_text cr = Inl (Exception m)"
      by (auto simp: first_choice_text_def)
    then obtain m where m: "first_choice_text cr = Inl (Exception m)" by blast
    with h have "fst (advise client (response_text resp) w1) = Inl (Exception m)"
      by (simp add: advise_result)
    with h have "fst (advice_step client (response_text resp) w1) = ustr ''Error generating advice.''"
      by (simp add: advice_step_result)
    with p f show ?thesis by simp
  qed
  from 1 2 3 show ?thesis by blast
qed

theorem malformed_completion_is_not_fatal_witness:
  "read wav_upload = Inr [82, 73, 70, 70]
   \<and> transcriptions_create no_choices_client (whisper_request wav_upload [82, 73, 70, 70])
       = Inr (Transcription (ustr ''hola, necesito ayuda''))
   \<and> completions_create no_choices_client (advice_request (ustr ''hola, necesito ayuda''))
       = Inr (ChatCompletion [])
   \<and> choices (ChatCompletion []) = []
   \<and> http_status (fst (process_audio no_choices_client wav_upload [])) = 200
   \<and> fst (process_audio no_choices_client wav_upload []) =
       Inr \<lparr>transcription = ustr ''hola, necesito ayuda'',
            advice = ustr ''Error generating advice.''\<rparr>"
proof -
  have r: "read wav_upload = Inr [82, 73, 70, 70]" by (simp add: wav_upload_def)
  have t: "transcriptions_create no_choices_client (whisper_request wav_upload [82, 73, 70, 70])
       = Inr (Transcription (ustr ''hola, necesito ayuda''))"
    by (simp add: no_choices_client_def)
  have c: "completions_create no_choices_client (advice_request (ustr ''hola, necesito ayuda''))
       = Inr (ChatCompletion [])"
    by (simp add: no_choices_client_def)
  from malformed_completion_is_not_fatal [OF r t, of "[]"] c
  have "http_status (fst (process_audio no_choices_client wav_upload [])) = 200
    \<and> fst (process_audio no_choices_client wav_upload []) =
       Inr \<lparr>transcription = ustr ''hola, necesito ayuda'',
            advice = ustr ''Error generating advice.''\<rparr>"
    by (simp add: http_status_def)
  with r t c show ?thesis by (simp add: http_status_def)
qed

text \<open>
  C10. Once the transcription has succeeded, the transcription of the response is the
  text the transcription service returned, unchanged (not trimmed, and also when it is
  empty), whatever the advice step does.
\<close>

theorem transcription_is_never_modified:
  assumes "read audio_file = Inr audio_data"
    and "transcriptions_create client (whisper_request audio_file audio_data) = Inr resp"
  shows "\<exists>a. fst (process_audio client audio_file w) =
           Inr \<lparr>transcription = response_text resp, advice = a\<rparr>"
proof -
  from process_audio_ok [OF assms, of w] obtain w1 where
    "process_audio client audio_file w =
               (Inr \<lparr>transcription = response_text resp,
                     advice = fst (advice_step client (response_text resp) w1)\<rparr>,
                snd (advice_step client (response_text resp) w1))"
    by blast
  then show ?thesis by simp
qed

theorem transcription_is_never_modified_witness:
  "read wav_upload = Inr [82, 73, 70, 70]
   \<and> transcriptions_create padded_client (whisper_request wav_upload [82, 73, 70, 70])
       = Inr (Transcription (ustr ''  hola  ''))
   \<and> (\<exists>a. fst (process_audio padded_client wav_upload []) =
         Inr \<lparr>transcription = ustr ''  hola  '', advice = a\<rparr>)
   \<and> transcriptions_create silent_client (whisper_request wav_upload [82, 73, 70, 70])
       = Inr (Transcription [])
   \<and> (\<exists>a. fst (process_audio silent_client wav_upload []) =
         Inr \<lparr>transcription = [], advice = a\<rparr>)"
proof -
  have r: "read wav_upload = Inr [82, 73, 70, 70]" by (simp add: wav_upload_def)
  have t: "transcriptions_create padded_client (whisper_request wav_upload [82, 73, 70, 70])
       = Inr (Transcription (ustr ''  hola  ''))"
    by (simp add: padded_client_def)
  have t': "transcriptions_create silent_client (whisper_request wav_upload [82, 73, 70, 70])
       = Inr (Transcription [])"
    by (simp add: silent_client_def)
  from transcription_is_never_modified [OF r t, of "[]"]
       transcription_is_never_modified [OF r t', of "[]"] r t t'
  show ?thesis by simp
qed

end
